theory Spec2Isabelle
  imports Complex_Main
begin

section \<open>NutriTrack: the nutrition calculation engine\<close>

text \<open>
  A shallow embedding of \<^verbatim>\<open>src/types/nutrition.ts\<close> (the target calculator)
  and \<^verbatim>\<open>src/lib/nutritionCalculator.ts\<close> (the quantity converter).

  Numbers. TypeScript's \<^verbatim>\<open>number\<close> is modelled by exact real numbers
  \<^typ>\<open>real\<close>: \<open>+\<close>, \<open>-\<close>, \<open>*\<close> and \<open>/\<close> are the exact operations, the decimal
  constants of the source (\<open>6.25\<close>, \<open>1.55\<close>, \<open>0.80\<close>, ...) are the fractions they
  denote, and values that are integers at run time (the results of \<^verbatim>\<open>Math.round\<close>)
  stay in the same type, as they do in the source. \<^verbatim>\<open>NaN\<close> and the infinities
  are outside this model. The divisors of the modelled code are non-zero constants,
  a power of ten, and the serving size, which is shown below to be non-zero.

  The binary rounding of IEEE doubles is left out of the target calculator and the
  quantity converter. It is modelled in \<open>validateMacroCalorieMatch\<close>, which compares
  a difference with a tolerance and decides the cases where the two meet by the
  rounded values: there every product, sum and difference is rounded to binary64
  (\<open>mul64\<close>, \<open>add64\<close>, \<open>sub64\<close>), and the constant \<open>0.05\<close> is the double nearest
  to it.
\<close>

subsection \<open>Library functions of the language\<close>

text \<open>\<^verbatim>\<open>Math.round(x)\<close>: the nearest integer, a tie going up (towards \<open>+\<infinity>\<close>).\<close>

definition Math_round :: "real \<Rightarrow> real" where
  "Math_round x = of_int \<lfloor>x + 1 / 2\<rfloor>"

text \<open>
  Binary64, the format of \<^verbatim>\<open>number\<close>: a finite double is \<open>m * 2\<^sup>q\<close> with integers
  \<open>\<bar>m\<bar> < 2\<^sup>5\<^sup>3\<close> and \<open>q \<ge> -1074\<close>. \<open>pow2 q\<close> is \<open>2\<^sup>q\<close> for an integer \<open>q\<close>, and
  \<open>binade x\<close> is the exponent \<open>e\<close> with \<open>2\<^sup>e \<le> \<bar>x\<bar> < 2\<^sup>e\<^sup>+\<^sup>1\<close>, found by halving or
  doubling \<open>\<bar>x\<bar>\<close>; the 1100 steps allowed cover the exponents of the format, which lie
  between \<open>-1074\<close> and \<open>1023\<close>.
\<close>

definition pow2 :: "int \<Rightarrow> real" where
  "pow2 k = (if 0 \<le> k then 2 ^ nat k else 1 / 2 ^ nat (- k))"

fun halvings :: "nat \<Rightarrow> real \<Rightarrow> int" where
  "halvings 0 a = 0"
| "halvings (Suc n) a = (if a < 2 then 0 else halvings n (a / 2) + 1)"

fun doublings :: "nat \<Rightarrow> real \<Rightarrow> int" where
  "doublings 0 a = 0"
| "doublings (Suc n) a = (if 1 \<le> a then 0 else doublings n (a * 2) + 1)"

definition binade :: "real \<Rightarrow> int" where
  "binade x = (if 1 \<le> \<bar>x\<bar> then halvings 1100 \<bar>x\<bar> else - doublings 1100 \<bar>x\<bar>)"

text \<open>The nearest integer, a tie going to the even one.\<close>

definition round_half_even :: "real \<Rightarrow> int" where
  "round_half_even x =
     (let n = \<lfloor>x\<rfloor>; r = x - of_int n
      in if r < 1 / 2 then n else if 1 / 2 < r then n + 1
         else if even n then n else n + 1)"

text \<open>
  \<open>fl64 x\<close> is the double nearest to \<open>x\<close>, a tie going to the even significand
  (the rounding mode of the language): \<open>x\<close> is rounded to a multiple of \<open>2\<^sup>q\<close>,
  where \<open>q\<close> leaves 53 bits to the significand and is at least \<open>-1074\<close> (the
  subnormal numbers). A result of \<open>2\<^sup>1\<^sup>0\<^sup>2\<^sup>4\<close> or more is an infinity in the
  language; \<open>ordinary_double\<close> keeps the arguments of a computation far below that.
  A decimal constant of the source is the double \<open>fl64\<close> gives, and the arithmetic
  operators round the exact result in the same way.
\<close>

definition fl64 :: "real \<Rightarrow> real" where
  "fl64 x =
     (if x = 0 then 0
      else let q = max (binade x - 52) (- 1074)
           in of_int (round_half_even (x / pow2 q)) * pow2 q)"

definition mul64 :: "real \<Rightarrow> real \<Rightarrow> real" where
  "mul64 a b = fl64 (a * b)"

definition add64 :: "real \<Rightarrow> real \<Rightarrow> real" where
  "add64 a b = fl64 (a + b)"

definition sub64 :: "real \<Rightarrow> real \<Rightarrow> real" where
  "sub64 a b = fl64 (a - b)"


text \<open>
  \<^verbatim>\<open>x || d\<close> on a number: the right operand replaces a falsy left operand. The
  only falsy number of this model is \<open>0\<close>.
\<close>

definition js_or :: "real \<Rightarrow> real \<Rightarrow> real" where
  "js_or x d = (if x = 0 then d else x)"

text \<open>
  The same operator on an optional parameter: \<open>None\<close> is \<^verbatim>\<open>undefined\<close>, falsy
  as well.
\<close>

definition or_default :: "real option \<Rightarrow> real \<Rightarrow> real" where
  "or_default x d = (case x of None \<Rightarrow> d | Some v \<Rightarrow> js_or v d)"

text \<open>
  A number inside a template literal, \<^verbatim>\<open>`${x}`\<close>: an optional minus sign, the
  integer part in decimal and, when there is one, the fraction after a point. The
  fraction is written digit by digit until it ends, at most 17 digits. The language
  prints the shortest decimal that reads back as the same double, which is the same
  string for the integers and short decimals that quantities are; its exponent
  notation, from \<^verbatim>\<open>1e21\<close> on and below \<^verbatim>\<open>1e-6\<close>, is not modelled.
  \<open>digit_char\<close> is only applied to the digits \<open>0\<close> to \<open>9\<close>.
\<close>

definition digit_char :: "nat \<Rightarrow> char" where
  "digit_char d = ''0123456789'' ! d"

fun nat_digits :: "nat \<Rightarrow> string" where
  "nat_digits n =
     (if n < 10 then [digit_char n] else nat_digits (n div 10) @ [digit_char (n mod 10)])"

declare nat_digits.simps [simp del]

fun frac_digits :: "nat \<Rightarrow> real \<Rightarrow> string" where
  "frac_digits 0 r = []"
| "frac_digits (Suc n) r =
     (if r = 0 then []
      else digit_char (nat \<lfloor>r * 10\<rfloor>) # frac_digits n (r * 10 - of_int \<lfloor>r * 10\<rfloor>))"

definition Number_toString :: "real \<Rightarrow> string" where
  "Number_toString x =
     (let a = \<bar>x\<bar>; i = \<lfloor>a\<rfloor>; f = a - of_int i
      in (if x < 0 then ''-'' else []) @ nat_digits (nat i)
         @ (if f = 0 then [] else ''.'' @ frac_digits 17 f))"

subsection \<open>\<^verbatim>\<open>src/types/nutrition.ts\<close>: types\<close>

datatype GoalType = Lose | Maintain | Gain

datatype ActivityLevel =
  Sedentary | Lightly_active | Moderately_active | Very_active | Extra_active

datatype Gender = Male | Female | Other

subsection \<open>\<^verbatim>\<open>src/types/nutrition.ts\<close>: the target calculator\<close>

text \<open>Lines 95-109. Mifflin-St Jeor; only \<open>male\<close> takes the \<open>+5\<close> branch.\<close>

definition calculateBMR :: "real \<Rightarrow> real \<Rightarrow> real \<Rightarrow> Gender \<Rightarrow> real" where
  "calculateBMR weight height age gender =
     (let base = 10 * weight + 6.25 * height - 5 * age
      in if gender = Male then base + 5 else base - 161)"

text \<open>Lines 112-118, the table \<^verbatim>\<open>ACTIVITY_MULTIPLIERS\<close>.\<close>

fun ACTIVITY_MULTIPLIERS :: "ActivityLevel \<Rightarrow> real" where
  "ACTIVITY_MULTIPLIERS Sedentary = 1.2"
| "ACTIVITY_MULTIPLIERS Lightly_active = 1.375"
| "ACTIVITY_MULTIPLIERS Moderately_active = 1.55"
| "ACTIVITY_MULTIPLIERS Very_active = 1.725"
| "ACTIVITY_MULTIPLIERS Extra_active = 1.9"

text \<open>Lines 121-123.\<close>

definition calculateTDEE :: "real \<Rightarrow> ActivityLevel \<Rightarrow> real" where
  "calculateTDEE bmr activityLevel = bmr * ACTIVITY_MULTIPLIERS activityLevel"

text \<open>Lines 127-139. The \<^verbatim>\<open>default\<close> label shares the \<open>maintain\<close> branch.\<close>

fun calculateCalorieTarget :: "real \<Rightarrow> GoalType \<Rightarrow> real" where
  "calculateCalorieTarget tdee Lose = Math_round (tdee * 0.80)"
| "calculateCalorieTarget tdee Gain = Math_round (tdee * 1.10)"
| "calculateCalorieTarget tdee Maintain = Math_round tdee"

text \<open>
  Lines 145-201. \<^verbatim>\<open>weightKg\<close> is an optional parameter: \<open>None\<close> is the omitted
  argument, and \<^verbatim>\<open>weightKg || 70\<close> is \<open>or_default weightKg 70\<close>.
\<close>

text \<open>
  The \<^verbatim>\<open>switch\<close> of lines 156-175, which assigns \<^verbatim>\<open>proteinPerKg\<close> and
  \<^verbatim>\<open>fatPercent\<close> together.
\<close>

fun macroRatios :: "GoalType \<Rightarrow> real \<times> real" where
  "macroRatios Lose = (2.0, 0.25)"
| "macroRatios Gain = (1.8, 0.25)"
| "macroRatios Maintain = (1.6, 0.25)"

text \<open>
  The object returned by \<^verbatim>\<open>calculateMacroTargets\<close>. Its fields \<^verbatim>\<open>protein\<close>,
  \<^verbatim>\<open>carbs\<close>, \<^verbatim>\<open>fat\<close>, \<^verbatim>\<open>_calculatedCalories\<close>, \<^verbatim>\<open>_proteinPerKg\<close> and
  \<^verbatim>\<open>_fatPercent\<close> carry the prefix \<open>mt_\<close> here, the plain names being the fields
  of \<open>NutritionResult\<close> below.
\<close>

record MacroTargets =
  mt_protein :: real
  mt_carbs :: real
  mt_fat :: real
  mt_calculatedCalories :: real
  mt_proteinPerKg :: real
  mt_fatPercent :: real

definition calculateMacroTargets :: "real \<Rightarrow> GoalType \<Rightarrow> real option \<Rightarrow> MacroTargets" where
  "calculateMacroTargets calorieTarget goalType weightKg =
     (let weight = or_default weightKg 70;
          (proteinPerKg, fatPercent) = macroRatios goalType;
          protein = Math_round (weight * proteinPerKg);
          proteinCalories = protein * 4;
          fatCalories = calorieTarget * fatPercent;
          fat = Math_round (fatCalories / 9);
          carbCalories = calorieTarget - proteinCalories - fat * 9;
          carbs = Math_round (max 0 carbCalories / 4);
          totalCalories = protein * 4 + carbs * 4 + fat * 9
      in \<lparr>mt_protein = protein, mt_carbs = carbs, mt_fat = fat,
          mt_calculatedCalories = totalCalories,
          mt_proteinPerKg = proteinPerKg, mt_fatPercent = fatPercent\<rparr>)"

subsection \<open>\<^verbatim>\<open>src/hooks/useProfile.ts\<close>: the target pipeline\<close>

text \<open>
  Lines 54-66 (\<^verbatim>\<open>completeOnboarding\<close>) and 110-120 (\<^verbatim>\<open>recalculateTargets\<close>) are
  the same six statements: the conversion of an imperial weight and height, then
  \<^verbatim>\<open>calculateBMR\<close>, \<^verbatim>\<open>calculateTDEE\<close>, \<^verbatim>\<open>calculateCalorieTarget\<close> and
  \<^verbatim>\<open>calculateMacroTargets\<close>, called with the converted weight. Both store the
  calorie target and the three macro targets in the profile (lines 77-80, 125-128);
  the record below has those four fields under the names of the profile columns.
\<close>

datatype UnitSystem = Metric | Imperial

record DailyTargets =
  daily_calorie_target :: real
  daily_protein_target :: real
  daily_carbs_target :: real
  daily_fat_target :: real

definition computeDailyTargets ::
  "UnitSystem \<Rightarrow> real \<Rightarrow> real \<Rightarrow> real \<Rightarrow> Gender \<Rightarrow> ActivityLevel \<Rightarrow> GoalType
     \<Rightarrow> DailyTargets" where
  "computeDailyTargets unit_system current_weight height age gender activity_level goal_type =
     (let weightKg = (if unit_system = Imperial then current_weight / 2.205 else current_weight);
          heightCm = (if unit_system = Imperial then height * 2.54 else height);
          bmr = calculateBMR weightKg heightCm age gender;
          tdee = calculateTDEE bmr activity_level;
          calorieTarget = calculateCalorieTarget tdee goal_type;
          macros = calculateMacroTargets calorieTarget goal_type (Some weightKg)
      in \<lparr>daily_calorie_target = calorieTarget,
          daily_protein_target = mt_protein macros,
          daily_carbs_target = mt_carbs macros,
          daily_fat_target = mt_fat macros\<rparr>)"

text \<open>
  The order of the activity levels, as the type \<^verbatim>\<open>ActivityLevel\<close> lists them and
  as the multipliers grow.
\<close>

fun activityRank :: "ActivityLevel \<Rightarrow> nat" where
  "activityRank Sedentary = 0"
| "activityRank Lightly_active = 1"
| "activityRank Moderately_active = 2"
| "activityRank Very_active = 3"
| "activityRank Extra_active = 4"

subsection \<open>\<^verbatim>\<open>src/types/nutrition.ts\<close>: foods\<close>

datatype FoodCategory =
  Fruits | Vegetables | Proteins | Grains | Dairy | Fats | Beverages | Snacks | Custom

text \<open>
  Lines 28-41, the interface \<^verbatim>\<open>Food\<close>. The field \<^verbatim>\<open>id\<close> is \<open>id_str\<close> here
  (\<open>id\<close> is the identity function of HOL).
\<close>

record Food =
  id_str :: string
  name :: string
  category :: FoodCategory
  calories_per_serving :: real
  protein_grams :: real
  carbs_grams :: real
  fat_grams :: real
  serving_size :: string
  serving_grams :: real
  is_system_food :: bool
  created_by :: "string option"
  created_at :: string

text \<open>Lines 75-80, the interface \<^verbatim>\<open>DailyNutrition\<close>.\<close>

record DailyNutrition =
  calories :: real
  protein :: real
  carbs :: real
  fat :: real

subsection \<open>\<^verbatim>\<open>src/lib/nutritionCalculator.ts\<close>: the quantity converter\<close>

text \<open>Line 3. The type is closed, so the \<^verbatim>\<open>default\<close> labels are never taken.\<close>

datatype QuantityUnit = Unit_g | Unit_ml | Unit_serving

text \<open>
  Lines 5-11. \<^verbatim>\<open>NutritionResult\<close> has the four fields of \<^verbatim>\<open>DailyNutrition\<close> and
  \<^verbatim>\<open>displayQuantity\<close>.
\<close>

record NutritionResult = DailyNutrition +
  displayQuantity :: string

text \<open>
  Lines 13-24. The type of \<^verbatim>\<open>perBaseNutrition\<close> is written inline in the source,
  with the fields of \<^verbatim>\<open>DailyNutrition\<close>.
\<close>

datatype BaseUnit = Base_g | Base_ml

record CalculationBreakdown =
  baseAmount :: real
  baseUnit :: BaseUnit
  perBaseNutrition :: DailyNutrition
  multiplier :: real
  finalNutrition :: NutritionResult

text \<open>Lines 191-194. \<^verbatim>\<open>Math.pow(10, decimals)\<close> is never \<open>0\<close>.\<close>

definition roundToDecimal :: "real \<Rightarrow> nat \<Rightarrow> real" where
  "roundToDecimal v decimals =
     (let factor = 10 ^ decimals in Math_round (v * factor) / factor)"

text \<open>Lines 133-135, on the categories of \<^verbatim>\<open>Food\<close>.\<close>

definition isLiquid :: "FoodCategory \<Rightarrow> bool" where
  "isLiquid c = (c = Beverages)"

text \<open>Lines 37-82.\<close>

definition calculateNutrition :: "Food \<Rightarrow> real \<Rightarrow> QuantityUnit \<Rightarrow> NutritionResult" where
  "calculateNutrition food quantity unit =
     (let servingGrams = js_or (serving_grams food) 100;
          (multiplier, displayQuantity) =
            (case unit of
               Unit_g \<Rightarrow> (quantity / servingGrams, Number_toString quantity @ ''g'')
             | Unit_ml \<Rightarrow> (quantity / servingGrams, Number_toString quantity @ ''ml'')
             | Unit_serving \<Rightarrow>
                 (quantity,
                  Number_toString quantity @ '' ''
                    @ (if quantity = 1 then ''serving'' else ''servings'')
                    @ '' ('' @ Number_toString (Math_round (quantity * servingGrams))
                    @ (if isLiquid (category food) then ''ml'' else ''g'') @ '')''));
          rawCalories = calories_per_serving food * multiplier;
          rawProtein = protein_grams food * multiplier;
          rawCarbs = carbs_grams food * multiplier;
          rawFat = fat_grams food * multiplier
      in \<lparr>calories = Math_round rawCalories,
          protein = roundToDecimal rawProtein 1,
          carbs = roundToDecimal rawCarbs 1,
          fat = roundToDecimal rawFat 1,
          displayQuantity = displayQuantity\<rparr>)"

text \<open>Lines 87-128.\<close>

definition getCalculationBreakdown ::
  "Food \<Rightarrow> real \<Rightarrow> QuantityUnit \<Rightarrow> CalculationBreakdown" where
  "getCalculationBreakdown food quantity unit =
     (let servingGrams = js_or (serving_grams food) 100;
          baseUnit = (if isLiquid (category food) then Base_ml else Base_g);
          per100 = \<lparr>calories = calories_per_serving food / servingGrams * 100,
                    protein = protein_grams food / servingGrams * 100,
                    carbs = carbs_grams food / servingGrams * 100,
                    fat = fat_grams food / servingGrams * 100\<rparr>;
          multiplier =
            (case unit of
               Unit_g \<Rightarrow> quantity / servingGrams
             | Unit_ml \<Rightarrow> quantity / servingGrams
             | Unit_serving \<Rightarrow> quantity);
          finalNutrition = calculateNutrition food quantity unit
      in \<lparr>baseAmount = 100,
          baseUnit = baseUnit,
          perBaseNutrition =
            \<lparr>calories = roundToDecimal (calories per100) 1,
             protein = roundToDecimal (protein per100) 1,
             carbs = roundToDecimal (carbs per100) 1,
             fat = roundToDecimal (fat per100) 1\<rparr>,
          multiplier = roundToDecimal multiplier 2,
          finalNutrition = finalNutrition\<rparr>)"

text \<open>
  Lines 170-186, in binary64 arithmetic: \<^verbatim>\<open>(protein * 4) + (carbs * 4) + (fat * 9)\<close>
  rounds each product and each of the two sums, from left to right;
  \<^verbatim>\<open>calories - calculatedCalories\<close> and \<^verbatim>\<open>calories * 0.05\<close> round once
  more. \<^verbatim>\<open>Math.abs\<close>, \<^verbatim>\<open>Math.round\<close> and the comparisons are exact on doubles.
  The parameters \<^verbatim>\<open>calories\<close>, \<^verbatim>\<open>protein\<close>, \<^verbatim>\<open>carbs\<close> and \<^verbatim>\<open>fat\<close> are primed,
  the plain names being the record fields above.
\<close>

record MacroCalorieMatch =
  isValid :: bool
  calculatedCalories :: real
  difference :: real

definition validateMacroCalorieMatch ::
  "real \<Rightarrow> real \<Rightarrow> real \<Rightarrow> real \<Rightarrow> MacroCalorieMatch" where
  "validateMacroCalorieMatch calories' protein' carbs' fat' =
     (let calculatedCalories =
            add64 (add64 (mul64 protein' 4) (mul64 carbs' 4)) (mul64 fat' 9);
          difference = \<bar>sub64 calories' calculatedCalories\<bar>;
          tolerance = mul64 calories' (fl64 0.05)
      in \<lparr>isValid = (difference \<le> tolerance \<or> difference \<le> 5),
          calculatedCalories = Math_round calculatedCalories,
          difference = Math_round difference\<rparr>)"

section \<open>Properties\<close>

subsection \<open>Rounding\<close>

lemma Math_round_mono: "x \<le> y \<Longrightarrow> Math_round x \<le> Math_round y"
  by (simp add: Math_round_def floor_mono)

lemma Math_round_strict: "x + 1 \<le> y \<Longrightarrow> Math_round x < Math_round y"
proof -
  assume "x + 1 \<le> y"
  then have "x + 1 / 2 + 1 \<le> y + 1 / 2" by simp
  then have "\<lfloor>x + 1 / 2 + 1\<rfloor> \<le> \<lfloor>y + 1 / 2\<rfloor>" by (rule floor_mono)
  then have "\<lfloor>x + 1 / 2\<rfloor> + 1 \<le> \<lfloor>y + 1 / 2\<rfloor>" by (simp only: one_add_floor)
  then show ?thesis by (simp add: Math_round_def)
qed

lemma Math_round_nonneg: "0 \<le> x \<Longrightarrow> 0 \<le> Math_round x"
  by (simp add: Math_round_def)

text \<open>Rounding a quarter of an integer, in integer arithmetic.\<close>

lemma Math_round_quarter: "Math_round (of_int n / 4) = of_int ((n + 2) div 4)"
proof -
  have "(of_int n / 4 + 1 / 2 :: real) = of_int (n + 2) / of_int 4" by simp
  then have "\<lfloor>of_int n / 4 + 1 / 2 :: real\<rfloor> = (n + 2) div 4"
    by (simp only: floor_divide_of_int_eq)
  then show ?thesis by (simp add: Math_round_def)
qed

lemma quarter_round_bounds:
  "of_int n - 1 \<le> 4 * Math_round (of_int n / 4)
   \<and> 4 * Math_round (of_int n / 4) \<le> of_int n + (2::real)"
proof -
  have lo: "n - 1 \<le> 4 * ((n + 2) div 4)" by presburger
  have hi: "4 * ((n + 2) div 4) \<le> n + 2" by presburger
  have "(of_int (n - 1) :: real) \<le> of_int (4 * ((n + 2) div 4))"
    using lo by (simp only: of_int_le_iff)
  moreover have "(of_int (4 * ((n + 2) div 4)) :: real) \<le> of_int (n + 2)"
    using hi by (simp only: of_int_le_iff)
  ultimately show ?thesis by (simp add: Math_round_quarter)
qed

lemma calculateCalorieTarget_is_int: "\<exists>k::int. calculateCalorieTarget t g = of_int k"
  by (cases g) (simp_all add: Math_round_def)

subsection \<open>Target calculator: BMR\<close>

text \<open>
  C5. For every weight, height and age, \<open>calculateBMR\<close> for \<open>male\<close> is exactly 166
  more than for \<open>female\<close>, and \<open>other\<close> gives the same value as \<open>female\<close>.
\<close>

theorem calculateBMR_gender_offset:
  "calculateBMR w h a Male = calculateBMR w h a Female + 166
   \<and> calculateBMR w h a Other = calculateBMR w h a Female"
  by (simp add: calculateBMR_def Let_def)

subsection \<open>Target calculator: the worked example\<close>

text \<open>
  C1, as stated, fails: for weight 70, height 175, age 30, male, the BMR is not
  \<open>1073.75\<close> and the calorie target of the pipeline is not \<open>1331\<close>. The sum
  \<open>10*70 + 6.25*175 - 5*30 + 5\<close> is \<open>1648.75\<close>.
\<close>

theorem worked_example_counterexample:
  "calculateBMR 70 175 30 Male \<noteq> 1073.75
   \<and> daily_calorie_target
        (computeDailyTargets Metric 70 175 30 Male Moderately_active Lose) \<noteq> 1331"
  by code_simp

text \<open>
  C1, amended. For weight 70, height 175, age 30, male, moderately active, goal
  \<open>lose\<close>: BMR \<open>1648.75\<close>, TDEE \<open>2555.5625\<close>, calorie target \<open>2044\<close>, protein
  \<open>140\<close>, fat \<open>57\<close>, carbs \<open>243\<close>, step by step and through the pipeline.
\<close>

theorem target_pipeline_70kg:
  "calculateBMR 70 175 30 Male = 1648.75
   \<and> calculateTDEE 1648.75 Moderately_active = 2555.5625
   \<and> calculateCalorieTarget 2555.5625 Lose = 2044
   \<and> mt_protein (calculateMacroTargets 2044 Lose (Some 70)) = 140
   \<and> mt_fat (calculateMacroTargets 2044 Lose (Some 70)) = 57
   \<and> mt_carbs (calculateMacroTargets 2044 Lose (Some 70)) = 243
   \<and> computeDailyTargets Metric 70 175 30 Male Moderately_active Lose =
       \<lparr>daily_calorie_target = 2044, daily_protein_target = 140,
        daily_carbs_target = 243, daily_fat_target = 57\<rparr>"
  by code_simp

subsection \<open>Target calculator: macros against calories\<close>

lemma macro_fields:
  "mt_calculatedCalories (calculateMacroTargets c g w) =
     mt_protein (calculateMacroTargets c g w) * 4
     + mt_carbs (calculateMacroTargets c g w) * 4
     + mt_fat (calculateMacroTargets c g w) * 9"
proof -
  obtain pk fk where pf: "macroRatios g = (pk, fk)" by (cases "macroRatios g")
  show ?thesis by (simp add: calculateMacroTargets_def Let_def pf)
qed

text \<open>
  With an integer calorie target and no clamping, the calories of the three macros
  are the target less 1 up to the target plus 2: only the rounding of the carbs moves
  the total.
\<close>

lemma macro_total_bounds:
  assumes "4 * mt_protein (calculateMacroTargets (of_int k) g w)
             + 9 * mt_fat (calculateMacroTargets (of_int k) g w) \<le> of_int k"
  shows "of_int k - 1 \<le> mt_calculatedCalories (calculateMacroTargets (of_int k) g w)
       \<and> mt_calculatedCalories (calculateMacroTargets (of_int k) g w) \<le> of_int k + 2"
proof -
  obtain pk fk where pf: "macroRatios g = (pk, fk)" by (cases "macroRatios g")
  define P where "P = \<lfloor>or_default w 70 * pk + 1 / 2\<rfloor>"
  define F where "F = \<lfloor>of_int k * fk / 9 + 1 / 2\<rfloor>"
  have p: "mt_protein (calculateMacroTargets (of_int k) g w) = of_int P"
    by (simp add: calculateMacroTargets_def Let_def pf Math_round_def P_def)
  have f: "mt_fat (calculateMacroTargets (of_int k) g w) = of_int F"
    by (simp add: calculateMacroTargets_def Let_def pf Math_round_def F_def)
  have nonneg: "(0::real) \<le> of_int (k - P * 4 - F * 9)"
    using assms unfolding p f by simp
  have t: "mt_calculatedCalories (calculateMacroTargets (of_int k) g w)
        = of_int P * 4 + Math_round (of_int (k - P * 4 - F * 9) / 4) * 4 + of_int F * 9"
    using nonneg
    by (simp add: calculateMacroTargets_def Let_def pf Math_round_def P_def F_def max_def)
  show ?thesis
    using quarter_round_bounds [of "k - P * 4 - F * 9"] unfolding t by simp
qed

lemma computeDailyTargets_macros:
  "daily_protein_target (computeDailyTargets u w h a s l g) =
     mt_protein (calculateMacroTargets
       (daily_calorie_target (computeDailyTargets u w h a s l g)) g
       (Some (if u = Imperial then w / 2.205 else w)))
   \<and> daily_carbs_target (computeDailyTargets u w h a s l g) =
     mt_carbs (calculateMacroTargets
       (daily_calorie_target (computeDailyTargets u w h a s l g)) g
       (Some (if u = Imperial then w / 2.205 else w)))
   \<and> daily_fat_target (computeDailyTargets u w h a s l g) =
     mt_fat (calculateMacroTargets
       (daily_calorie_target (computeDailyTargets u w h a s l g)) g
       (Some (if u = Imperial then w / 2.205 else w)))"
  by (simp add: computeDailyTargets_def Let_def)

lemma computeDailyTargets_calories_int:
  "\<exists>k::int. daily_calorie_target (computeDailyTargets u w h a s l g) = of_int k"
  using calculateCalorieTarget_is_int by (simp add: computeDailyTargets_def Let_def)

text \<open>
  C2, as stated, fails. A profile with positive weight, height and age (100 kg,
  100 cm, 90 years, female, sedentary, goal \<open>lose\<close>) gets the calorie target 973,
  protein 200, carbs 0 (clamped) and fat 27: the macros add up to 1043 calories, 70
  away from the target.
\<close>

theorem macro_calorie_invariant_counterexample:
  "computeDailyTargets Metric 100 100 90 Female Sedentary Lose =
     \<lparr>daily_calorie_target = 973, daily_protein_target = 200,
      daily_carbs_target = 0, daily_fat_target = 27\<rparr>
   \<and> \<bar>4 * daily_protein_target (computeDailyTargets Metric 100 100 90 Female Sedentary Lose)
       + 4 * daily_carbs_target (computeDailyTargets Metric 100 100 90 Female Sedentary Lose)
       + 9 * daily_fat_target (computeDailyTargets Metric 100 100 90 Female Sedentary Lose)
       - daily_calorie_target (computeDailyTargets Metric 100 100 90 Female Sedentary Lose)\<bar>
     = 70"
  by code_simp

text \<open>
  C2, amended. For every profile whose protein and fat calories do not exceed the
  calorie target (the carbs are not clamped), \<open>4*protein + 4*carbs + 9*fat\<close> lies
  between \<open>calories - 1\<close> and \<open>calories + 2\<close>. It holds for every weight, height and
  age, in both unit systems.
\<close>

theorem macro_calories_within_two_unclamped:
  assumes "4 * daily_protein_target (computeDailyTargets u w h a s l g)
             + 9 * daily_fat_target (computeDailyTargets u w h a s l g)
           \<le> daily_calorie_target (computeDailyTargets u w h a s l g)"
  shows "daily_calorie_target (computeDailyTargets u w h a s l g) - 1
           \<le> 4 * daily_protein_target (computeDailyTargets u w h a s l g)
             + 4 * daily_carbs_target (computeDailyTargets u w h a s l g)
             + 9 * daily_fat_target (computeDailyTargets u w h a s l g)
       \<and> 4 * daily_protein_target (computeDailyTargets u w h a s l g)
             + 4 * daily_carbs_target (computeDailyTargets u w h a s l g)
             + 9 * daily_fat_target (computeDailyTargets u w h a s l g)
           \<le> daily_calorie_target (computeDailyTargets u w h a s l g) + 2"
proof -
  obtain k :: int where k: "daily_calorie_target (computeDailyTargets u w h a s l g) = of_int k"
    using computeDailyTargets_calories_int by blast
  define wk where "wk = Some (if u = Imperial then w / 2.205 else w)"
  note m = computeDailyTargets_macros [of u w h a s l g, unfolded k, folded wk_def]
  have "4 * mt_protein (calculateMacroTargets (of_int k) g wk)
          + 9 * mt_fat (calculateMacroTargets (of_int k) g wk) \<le> of_int k"
    using assms unfolding k using m by simp
  from macro_total_bounds [OF this]
  show ?thesis unfolding k using m by (simp add: macro_fields)
qed

theorem macro_calories_within_two_unclamped_witness:
  "4 * daily_protein_target (computeDailyTargets Metric 70 175 30 Male Moderately_active Lose)
     + 9 * daily_fat_target (computeDailyTargets Metric 70 175 30 Male Moderately_active Lose)
   \<le> daily_calorie_target (computeDailyTargets Metric 70 175 30 Male Moderately_active Lose)
   \<and> 4 * daily_protein_target (computeDailyTargets Metric 70 175 30 Male Moderately_active Lose)
     + 4 * daily_carbs_target (computeDailyTargets Metric 70 175 30 Male Moderately_active Lose)
     + 9 * daily_fat_target (computeDailyTargets Metric 70 175 30 Male Moderately_active Lose)
   \<le> daily_calorie_target (computeDailyTargets Metric 70 175 30 Male Moderately_active Lose) + 2"
proof -
  have v: "computeDailyTargets Metric 70 175 30 Male Moderately_active Lose =
       \<lparr>daily_calorie_target = 2044, daily_protein_target = 140,
        daily_carbs_target = 243, daily_fat_target = 57\<rparr>"
    by code_simp
  have h: "4 * daily_protein_target (computeDailyTargets Metric 70 175 30 Male Moderately_active Lose)
     + 9 * daily_fat_target (computeDailyTargets Metric 70 175 30 Male Moderately_active Lose)
   \<le> daily_calorie_target (computeDailyTargets Metric 70 175 30 Male Moderately_active Lose)"
    unfolding v by simp
  show ?thesis
    using h macro_calories_within_two_unclamped [OF h] by simp
qed

subsection \<open>Target calculator: carbs are never negative\<close>

lemma carbs_nonneg: "0 \<le> mt_carbs (calculateMacroTargets c g w)"
proof -
  obtain pk fk where pf: "macroRatios g = (pk, fk)" by (cases "macroRatios g")
  show ?thesis
    by (simp add: calculateMacroTargets_def Let_def pf Math_round_nonneg)
qed

lemma carbs_clamped:
  assumes "c \<le> 4 * mt_protein (calculateMacroTargets c g w)
               + 9 * mt_fat (calculateMacroTargets c g w)"
  shows "mt_carbs (calculateMacroTargets c g w) = 0"
proof -
  obtain pk fk where pf: "macroRatios g = (pk, fk)" by (cases "macroRatios g")
  have "c - Math_round (or_default w 70 * pk) * 4 - Math_round (c * fk / 9) * 9 \<le> 0"
    using assms by (simp add: calculateMacroTargets_def Let_def pf)
  then have "max 0 (c - Math_round (or_default w 70 * pk) * 4 - Math_round (c * fk / 9) * 9) = 0"
    by simp
  then show ?thesis
    by (simp add: calculateMacroTargets_def Let_def pf Math_round_def)
qed

text \<open>
  C8. For every goal, calorie target and positive weight, the carbs returned by
  \<open>calculateMacroTargets\<close> are at least \<open>0\<close>; when the protein and fat calories
  already exceed the calorie target, they are \<open>0\<close>.
\<close>

theorem calculateMacroTargets_carbs_nonneg:
  assumes "0 < w"
  shows "0 \<le> mt_carbs (calculateMacroTargets c g (Some w))
       \<and> (c < mt_protein (calculateMacroTargets c g (Some w)) * 4
                + mt_fat (calculateMacroTargets c g (Some w)) * 9
            \<longrightarrow> mt_carbs (calculateMacroTargets c g (Some w)) = 0)"
  using carbs_nonneg [of c g "Some w"] carbs_clamped [of c g "Some w"] by simp

theorem calculateMacroTargets_carbs_nonneg_witness:
  "(0::real) < 100
   \<and> 973 < mt_protein (calculateMacroTargets 973 Lose (Some 100)) * 4
            + mt_fat (calculateMacroTargets 973 Lose (Some 100)) * 9
   \<and> mt_carbs (calculateMacroTargets 973 Lose (Some 100)) = 0"
proof -
  have h: "(0::real) < 100" by simp
  have c: "973 < mt_protein (calculateMacroTargets 973 Lose (Some 100)) * 4
            + mt_fat (calculateMacroTargets 973 Lose (Some 100)) * 9"
    by code_simp
  show ?thesis
    using h c calculateMacroTargets_carbs_nonneg [OF h, of 973 Lose] by simp
qed

subsection \<open>Target calculator: activity levels\<close>

text \<open>Two levels in order have multipliers at least \<open>0.175\<close> apart.\<close>

lemma multiplier_gap:
  "activityRank a < activityRank b \<Longrightarrow>
     ACTIVITY_MULTIPLIERS a + 0.175 \<le> ACTIVITY_MULTIPLIERS b"
  by (cases a; cases b) simp_all

lemma tdee_strict:
  assumes "0 < bmr" "activityRank a < activityRank b"
  shows "calculateTDEE bmr a < calculateTDEE bmr b"
proof -
  have "ACTIVITY_MULTIPLIERS a < ACTIVITY_MULTIPLIERS b"
    using multiplier_gap [OF assms(2)] by simp
  then show ?thesis using assms(1) by (simp add: calculateTDEE_def)
qed

lemma tdee_gap:
  assumes "0 < bmr" "activityRank a < activityRank b"
  shows "calculateTDEE bmr a + 0.175 * bmr \<le> calculateTDEE bmr b"
proof -
  have "bmr * (ACTIVITY_MULTIPLIERS a + 0.175) \<le> bmr * ACTIVITY_MULTIPLIERS b"
    using multiplier_gap [OF assms(2)] assms(1) by (simp only: mult_le_cancel_left_pos)
  then show ?thesis by (simp add: calculateTDEE_def algebra_simps)
qed

lemma target_mono:
  "x \<le> y \<Longrightarrow> calculateCalorieTarget x g \<le> calculateCalorieTarget y g"
  by (cases g) (simp_all add: Math_round_mono)

lemma target_strict:
  assumes "x + 0.175 * bmr \<le> y" "50 / 7 \<le> bmr"
  shows "calculateCalorieTarget x g < calculateCalorieTarget y g"
proof (cases g)
  case Lose
  have "x * 0.80 + 1 \<le> y * 0.80" using assms by simp
  then show ?thesis using Lose by (simp only: calculateCalorieTarget.simps Math_round_strict)
next
  case Maintain
  have "x + 1 \<le> y" using assms by simp
  then show ?thesis using Maintain by (simp only: calculateCalorieTarget.simps Math_round_strict)
next
  case Gain
  have "x * 1.10 + 1 \<le> y * 1.10" using assms by simp
  then show ?thesis using Gain by (simp only: calculateCalorieTarget.simps Math_round_strict)
qed

text \<open>
  C6, as stated, fails: at the positive BMR \<open>1\<close> and goal \<open>lose\<close> the TDEE grows
  from \<open>sedentary\<close> to \<open>lightly_active\<close> (\<open>1.2\<close> to \<open>1.375\<close>), and the calorie
  target is \<open>1\<close> for both.
\<close>

theorem calorie_target_strict_counterexample:
  "calculateTDEE 1 Sedentary < calculateTDEE 1 Lightly_active
   \<and> calculateCalorieTarget (calculateTDEE 1 Sedentary) Lose = 1
   \<and> calculateCalorieTarget (calculateTDEE 1 Lightly_active) Lose = 1"
  by (simp add: calculateTDEE_def Math_round_def)

text \<open>
  C6, amended. For every positive BMR and every goal, along the order of the
  activity levels the TDEE strictly increases and the calorie target never decreases;
  the calorie target strictly increases when the BMR is at least \<open>50/7\<close> (about
  \<open>7.15\<close>).
\<close>

theorem activity_monotone:
  assumes "0 < bmr" and "activityRank a < activityRank b"
  shows "calculateTDEE bmr a < calculateTDEE bmr b
       \<and> calculateCalorieTarget (calculateTDEE bmr a) g
           \<le> calculateCalorieTarget (calculateTDEE bmr b) g
       \<and> (50 / 7 \<le> bmr \<longrightarrow>
            calculateCalorieTarget (calculateTDEE bmr a) g
              < calculateCalorieTarget (calculateTDEE bmr b) g)"
proof -
  have s: "calculateTDEE bmr a < calculateTDEE bmr b"
    using assms by (rule tdee_strict)
  have m: "calculateCalorieTarget (calculateTDEE bmr a) g
             \<le> calculateCalorieTarget (calculateTDEE bmr b) g"
    using s by (simp add: target_mono)
  have t: "50 / 7 \<le> bmr \<Longrightarrow>
             calculateCalorieTarget (calculateTDEE bmr a) g
               < calculateCalorieTarget (calculateTDEE bmr b) g"
    using tdee_gap [OF assms] by (rule target_strict)
  show ?thesis using s m t by blast
qed

theorem activity_monotone_witness:
  "(0::real) < 2000 \<and> activityRank Sedentary < activityRank Lightly_active
   \<and> (50 / 7 :: real) \<le> 2000
   \<and> calculateTDEE 2000 Sedentary < calculateTDEE 2000 Lightly_active
   \<and> calculateCalorieTarget (calculateTDEE 2000 Sedentary) Lose
       < calculateCalorieTarget (calculateTDEE 2000 Lightly_active) Lose"
proof -
  have h1: "(0::real) < 2000" by simp
  have h2: "activityRank Sedentary < activityRank Lightly_active" by simp
  have h3: "(50 / 7 :: real) \<le> 2000" by simp
  show ?thesis
    using h1 h2 h3 activity_monotone [OF h1 h2, of Lose] by blast
qed

subsection \<open>Quantity converter: worked conversions\<close>

text \<open>
  C7. For a food with \<open>serving_grams = 150\<close> and \<open>calories_per_serving = 300\<close>
  (whatever its other fields), \<open>calculateNutrition\<close> returns 300 calories for 1
  serving, 300 calories for 150 g and 150 calories for 75 g.
\<close>

theorem serving_150_calories_300:
  "calories (calculateNutrition
      (food\<lparr>serving_grams := 150, calories_per_serving := 300\<rparr>) 1 Unit_serving) = 300
   \<and> calories (calculateNutrition
      (food\<lparr>serving_grams := 150, calories_per_serving := 300\<rparr>) 150 Unit_g) = 300
   \<and> calories (calculateNutrition
      (food\<lparr>serving_grams := 150, calories_per_serving := 300\<rparr>) 75 Unit_g) = 150"
  by (simp add: calculateNutrition_def js_or_def Math_round_def)

subsection \<open>Quantity converter: grams and millilitres\<close>

text \<open>
  C3, as stated, fails on the field \<open>displayQuantity\<close>: for 150 units of a food the
  two results carry the strings \<open>150g\<close> and \<open>150ml\<close>.
\<close>

theorem unit_g_ml_counterexample:
  "displayQuantity (calculateNutrition
      \<lparr>id_str = ''f1'', name = ''Oats'', category = Grains, calories_per_serving = 389,
       protein_grams = 16.9, carbs_grams = 66.3, fat_grams = 6.9, serving_size = ''100g'',
       serving_grams = 100, is_system_food = True, created_by = None,
       created_at = ''2024-01-01''\<rparr> 150 Unit_g) = ''150g''
   \<and> displayQuantity (calculateNutrition
      \<lparr>id_str = ''f1'', name = ''Oats'', category = Grains, calories_per_serving = 389,
       protein_grams = 16.9, carbs_grams = 66.3, fat_grams = 6.9, serving_size = ''100g'',
       serving_grams = 100, is_system_food = True, created_by = None,
       created_at = ''2024-01-01''\<rparr> 150 Unit_ml) = ''150ml''
   \<and> calculateNutrition
      \<lparr>id_str = ''f1'', name = ''Oats'', category = Grains, calories_per_serving = 389,
       protein_grams = 16.9, carbs_grams = 66.3, fat_grams = 6.9, serving_size = ''100g'',
       serving_grams = 100, is_system_food = True, created_by = None,
       created_at = ''2024-01-01''\<rparr> 150 Unit_g
     \<noteq> calculateNutrition
      \<lparr>id_str = ''f1'', name = ''Oats'', category = Grains, calories_per_serving = 389,
       protein_grams = 16.9, carbs_grams = 66.3, fat_grams = 6.9, serving_size = ''100g'',
       serving_grams = 100, is_system_food = True, created_by = None,
       created_at = ''2024-01-01''\<rparr> 150 Unit_ml"
  by code_simp

text \<open>
  C3, amended. For every food and quantity, the results for \<open>g\<close> and \<open>ml\<close> have the
  same calories, protein, carbs and fat; their \<open>displayQuantity\<close> is the quantity
  followed by \<open>g\<close> and by \<open>ml\<close>, two different strings.
\<close>

theorem unit_g_ml_same_nutrition:
  "calories (calculateNutrition food q Unit_g) = calories (calculateNutrition food q Unit_ml)
   \<and> protein (calculateNutrition food q Unit_g) = protein (calculateNutrition food q Unit_ml)
   \<and> carbs (calculateNutrition food q Unit_g) = carbs (calculateNutrition food q Unit_ml)
   \<and> fat (calculateNutrition food q Unit_g) = fat (calculateNutrition food q Unit_ml)
   \<and> displayQuantity (calculateNutrition food q Unit_g) = Number_toString q @ ''g''
   \<and> displayQuantity (calculateNutrition food q Unit_ml) = Number_toString q @ ''ml''
   \<and> displayQuantity (calculateNutrition food q Unit_g)
       \<noteq> displayQuantity (calculateNutrition food q Unit_ml)"
  by (simp add: calculateNutrition_def Let_def)

subsection \<open>Quantity converter: the breakdown\<close>

text \<open>
  C9. For every food, quantity and unit, the field \<open>finalNutrition\<close> of
  \<open>getCalculationBreakdown\<close> is the result of \<open>calculateNutrition\<close> on the same
  arguments: the roundings of \<open>perBaseNutrition\<close> and of \<open>multiplier\<close> do not enter it.
\<close>

theorem breakdown_finalNutrition:
  "finalNutrition (getCalculationBreakdown food quantity unit) =
     calculateNutrition food quantity unit"
  by (simp add: getCalculationBreakdown_def Let_def)

subsection \<open>Quantity converter: a serving size of zero\<close>

text \<open>
  C10. The serving size both functions divide by, \<open>serving_grams || 100\<close>, is never
  \<open>0\<close>; a food with \<open>serving_grams = 0\<close> gives the results of the same food with
  \<open>serving_grams = 100\<close>, for every quantity and unit. Both functions are total:
  the source has no \<^verbatim>\<open>throw\<close>, and the model no error value.
\<close>

theorem serving_grams_zero_is_100:
  "js_or (serving_grams food) 100 \<noteq> 0
   \<and> calculateNutrition (food\<lparr>serving_grams := 0\<rparr>) quantity unit =
       calculateNutrition (food\<lparr>serving_grams := 100\<rparr>) quantity unit
   \<and> getCalculationBreakdown (food\<lparr>serving_grams := 0\<rparr>) quantity unit =
       getCalculationBreakdown (food\<lparr>serving_grams := 100\<rparr>) quantity unit"
  by (simp add: getCalculationBreakdown_def calculateNutrition_def js_or_def)

subsection \<open>The macro and calorie validator\<close>

text \<open>
  The rounding model on known doubles: the constant \<open>0.05\<close>, the literal \<open>2.2\<close>, an
  integer, and a tie (\<open>2\<^sup>5\<^sup>3 + 1\<close> lies midway between two doubles).
\<close>

lemma fl64_examples:
  "fl64 0.05 = 3602879701896397 / 2 ^ 56
   \<and> fl64 2.2 = 2476979795053773 / 2 ^ 50
   \<and> fl64 104 = 104
   \<and> fl64 (2 ^ 53 + 1) = 2 ^ 53"
  by code_simp

text \<open>
  The validator at one-decimal foods where the difference meets the tolerance or
  the sum meets a half: \<^verbatim>\<open>(6, 0.1, 2.2, 0.2)\<close> has the difference
  \<open>5.000000000000002\<close> and is invalid; \<^verbatim>\<open>(46, 0.7, 9.1, 0.7)\<close> has the sum
  \<open>45.49999999999999\<close>, which \<^verbatim>\<open>Math.round\<close> takes to 45.
\<close>

lemma validateMacroCalorieMatch_example_difference:
  "validateMacroCalorieMatch 6 (fl64 0.1) (fl64 2.2) (fl64 0.2) =
     \<lparr>isValid = False, calculatedCalories = 11, difference = 5\<rparr>"
  by code_simp

lemma validateMacroCalorieMatch_example_sum:
  "validateMacroCalorieMatch 46 (fl64 0.7) (fl64 9.1) (fl64 0.7) =
     \<lparr>isValid = True, calculatedCalories = 45, difference = 1\<rparr>"
  by code_simp




end
